theory Spec2Isabelle
  imports Main "HOL-Library.Sublist"
begin

section \<open>React nodes\<close>

text \<open>
  The components build their output with \<^verbatim>\<open>React.createElement\<close>. A rendered node
  is \<^verbatim>\<open>null\<close>, a string, or an element with a tag, its attributes and its children.
  \<^verbatim>\<open>React.createElement(tag, {children: c})\<close> is \<open>Element tag [] [c]\<close>.
\<close>

datatype react_node =
    Null
  | Text string
  | Element string "(string \<times> string) list" "react_node list"

text \<open>
  JavaScript's \<^verbatim>\<open>String(children)\<close> on a node: a string is itself, \<^verbatim>\<open>null\<close> prints as
  \<^verbatim>\<open>null\<close> and an element object as \<^verbatim>\<open>[object Object]\<close>.
\<close>

fun String_node :: "react_node \<Rightarrow> string" where
  "String_node (Text s) = s"
| "String_node Null = ''null''"
| "String_node (Element tag attrs nodes) = ''[object Object]''"

section \<open>Typography: the Base component\<close>

subsection \<open>Props and state\<close>

text \<open>
  \<^verbatim>\<open>BaseProps\<close>. An optional boolean is a \<open>bool option\<close> (\<open>None\<close> is \<^verbatim>\<open>undefined\<close>);
  \<^verbatim>\<open>rows\<close> is an optional number, here an integer; \<^verbatim>\<open>copyable\<close> is a boolean or a string.
  The props that only reach the class name or the DOM element (\<^verbatim>\<open>id\<close>, \<^verbatim>\<open>className\<close>,
  \<^verbatim>\<open>style\<close>, \<^verbatim>\<open>type\<close>, \<^verbatim>\<open>disabled\<close>, \<^verbatim>\<open>onChange\<close>) are left out.
\<close>

datatype copy_config = CopyBool bool | CopyStr string

record base_props =
  prefixCls :: string
  children :: react_node
  editable :: "bool option"
  extendable :: "bool option"
  copyable :: "copy_config option"
  rows :: "int option"
  code :: "bool option"
  mark :: "bool option"
  underline :: "bool option"
  delete :: "bool option"
  strong :: "bool option"

text \<open>\<^verbatim>\<open>BaseState\<close> and the initial value of \<^verbatim>\<open>state\<close> in the class body.\<close>

record base_state =
  edit :: bool
  copied :: bool
  ellipsisText :: string
  ellipsisContent :: react_node
  isEllipsis :: bool
  extended :: bool

definition initialState :: base_state where
  "initialState =
     \<lparr>edit = False, copied = False, ellipsisText = [], ellipsisContent = Null,
      isEllipsis = False, extended = False\<rparr>"

definition ELLIPSIS_STR :: string where
  "ELLIPSIS_STR = ''...''"

text \<open>What JavaScript takes for true in \<^verbatim>\<open>!flag\<close>, \<^verbatim>\<open>!copyable\<close> and \<^verbatim>\<open>!rows\<close>.\<close>

definition truthy :: "bool option \<Rightarrow> bool" where
  "truthy flag = (flag = Some True)"

fun truthyCopyable :: "copy_config option \<Rightarrow> bool" where
  "truthyCopyable None = False"
| "truthyCopyable (Some (CopyBool b)) = b"
| "truthyCopyable (Some (CopyStr s)) = (s \<noteq> [])"


subsection \<open>The decoration wrapper\<close>

text \<open>
  The inner function \<^verbatim>\<open>wrap(needed, tag)\<close> assigns to the captured variable
  \<^verbatim>\<open>currentContent\<close>; here it takes the current content and returns the new one.
  \<^verbatim>\<open>if (!needed) return\<close> leaves the content alone for \<^verbatim>\<open>false\<close> and \<^verbatim>\<open>undefined\<close>.
\<close>

definition wrap :: "bool option \<Rightarrow> string \<Rightarrow> react_node \<Rightarrow> react_node" where
  "wrap needed tag currentContent =
     (if needed \<noteq> Some True then currentContent
      else Element tag [] [currentContent])"

definition wrapperDecorations :: "base_props \<Rightarrow> react_node \<Rightarrow> react_node" where
  "wrapperDecorations props content =
     (let currentContent = content;
          currentContent = wrap (strong props) ''strong'' currentContent;
          currentContent = wrap (underline props) ''u'' currentContent;
          currentContent = wrap (delete props) ''del'' currentContent;
          currentContent = wrap (code props) ''code'' currentContent;
          currentContent = wrap (mark props) ''mark'' currentContent
      in currentContent)"

subsection \<open>The operations after the text\<close>

text \<open>
  \<^verbatim>\<open>renderExtend\<close>, \<^verbatim>\<open>renderEdit\<close> and \<^verbatim>\<open>renderCopy\<close> return a \<^verbatim>\<open>LocaleReceiver\<close> element or
  nothing. The element is kept as what it is made from: its kind, the class prefix and,
  for the copy button, the \<^verbatim>\<open>copied\<close> flag that picks its icon and title.
  \<^verbatim>\<open>renderOperations\<close> drops the missing ones with \<^verbatim>\<open>filter(node => node)\<close>.
\<close>

datatype operation = ExtendLink string | EditButton string | CopyButton string bool

definition renderExtend :: "base_props \<Rightarrow> base_state \<Rightarrow> operation option" where
  "renderExtend props st =
     (if \<not> truthy (extendable props) \<or> extended st then None
      else Some (ExtendLink (prefixCls props)))"

definition renderEdit :: "base_props \<Rightarrow> operation option" where
  "renderEdit props =
     (if \<not> truthy (editable props) then None else Some (EditButton (prefixCls props)))"

definition renderCopy :: "base_props \<Rightarrow> base_state \<Rightarrow> operation option" where
  "renderCopy props st =
     (if \<not> truthyCopyable (copyable props) then None
      else Some (CopyButton (prefixCls props) (copied st)))"

definition renderOperations :: "base_props \<Rightarrow> base_state \<Rightarrow> operation list" where
  "renderOperations props st =
     List.map_filter (\<lambda>node. node)
       [renderExtend props st, renderEdit props, renderCopy props st]"

subsection \<open>Synchronising the ellipsis\<close>

text \<open>
  \<^verbatim>\<open>measure\<close> is imported from \<^verbatim>\<open>./util\<close>, which is not among the sources, so it is an
  argument of \<open>syncEllipsis\<close>: a function of the content element, the rows, the children,
  the operations and the ellipsis string that returns \<^verbatim>\<open>{content, text, ellipsis}\<close>.
\<close>

record measured =
  measuredContent :: react_node
  measuredText :: string
  measuredEllipsis :: bool

type_synonym 'e measure_fn =
  "'e \<Rightarrow> int \<Rightarrow> react_node \<Rightarrow> operation list \<Rightarrow> string \<Rightarrow> measured"

text \<open>
  \<^verbatim>\<open>syncEllipsis\<close> reads the state, the props and the ref \<^verbatim>\<open>this.content\<close> (\<open>None\<close> while
  the paragraph is not mounted) and ends with \<^verbatim>\<open>setState\<close> or without it; the function
  returns the state it leaves. The guard
  \<^verbatim>\<open>if (!rows || rows < 0 || !this.content || extended) return\<close> is checked in this order.
  The call of \<^verbatim>\<open>warning\<close> only logs, and the local \<^verbatim>\<open>offset\<close> is computed and never read;
  neither changes the state.
\<close>

definition syncEllipsis ::
  "'e measure_fn \<Rightarrow> base_props \<Rightarrow> 'e option \<Rightarrow> base_state \<Rightarrow> base_state" where
  "syncEllipsis measure_util props content st =
     (case rows props of
        None \<Rightarrow> st
      | Some r \<Rightarrow>
          if r = 0 \<or> r < 0 then st
          else
            (case content of
               None \<Rightarrow> st
             | Some node \<Rightarrow>
                 if extended st then st
                 else
                   (let m = measure_util node r (children props)
                              (renderOperations props st) ELLIPSIS_STR
                    in if ellipsisText st \<noteq> measuredText m
                          \<or> isEllipsis st \<noteq> measuredEllipsis m
                       then st\<lparr>ellipsisText := measuredText m,
                               ellipsisContent := measuredContent m,
                               isEllipsis := measuredEllipsis m\<rparr>
                       else st)))"

text \<open>
  The same method with exceptions written out. \<^verbatim>\<open>measure\<close> is called without
  \<^verbatim>\<open>try\<close>, so an exception it throws leaves \<^verbatim>\<open>syncEllipsis\<close>; here \<^verbatim>\<open>measure\<close> returns
  \<open>Inl\<close> of the error or \<open>Inr\<close> of its result, and so does the method. The paths through
  the guard end without calling it.
\<close>

datatype js_error = JsError string




subsection \<open>Rendering the content\<close>




section \<open>Config provider: the default empty placeholder\<close>

text \<open>
  \<^verbatim>\<open>renderEmpty\<close> returns a \<^verbatim>\<open>ConfigConsumer\<close> whose render function receives
  \<^verbatim>\<open>getPrefixCls\<close> from the context; the context is not among the sources, so
  \<^verbatim>\<open>getPrefixCls\<close> is an argument. The result is the \<^verbatim>\<open>Empty\<close> element, given by its props
  (\<open>None\<close> for a prop that is not passed).
\<close>

record empty_props =
  image :: "string option"
  className :: "string option"

definition emptyImg :: string where
  "emptyImg = ''data:image/svg+xml;base64,PHN2ZyB3aWR0aD0iNjQiIGhlaWdodD0iNDEiIHhtbG5zPSJodHRwOi8vd3d3LnczLm9yZy8yMDAwL3N2ZyI+DQogIDxnIHRyYW5zZm9ybT0idHJhbnNsYXRlKDAgMSkiIGZpbGw9Im5vbmUiIGZpbGwtcnVsZT0iZXZlbm9kZCI+DQogICAgPGVsbGlwc2UgZmlsbD0iI0Y1RjVGNSIgY3g9IjMyIiBjeT0iMzMiIHJ4PSIzMiIgcnk9IjciLz4NCiAgICA8ZyBmaWxsLXJ1bGU9Im5vbnplcm8iIHN0cm9rZT0iI0Q5RDlEOSI+DQogICAgICA8cGF0aCBkPSJNNTUgMTIuNzZMNDQuODU0IDEuMjU4QzQ0LjM2Ny40NzQgNDMuNjU2IDAgNDIuOTA3IDBIMjEuMDkzYy0uNzQ5IDAtMS40Ni40NzQtMS45NDcgMS4yNTdMOSAxMi43NjFWMjJoNDZ2LTkuMjR6Ii8+DQogICAgICA8cGF0aCBkPSJNNDEuNjEzIDE1LjkzMWMwLTEuNjA1Ljk5NC0yLjkzIDIuMjI3LTIuOTMxSDU1djE4LjEzN0M1NSAzMy4yNiA1My42OCAzNSA1Mi4wNSAzNWgtNDAuMUMxMC4zMiAzNSA5IDMzLjI1OSA5IDMxLjEzN1YxM2gxMS4xNmMxLjIzMyAwIDIuMjI3IDEuMzIzIDIuMjI3IDIuOTI4di4wMjJjMCAxLjYwNSAxLjAwNSAyLjkwMSAyLjIzNyAyLjkwMWgxNC43NTJjMS4yMzIgMCAyLjIzNy0xLjMwOCAyLjIzNy0yLjkxM3YtLjAwN3oiIGZpbGw9IiNGQUZBRkEiLz4NCiAgICA8L2c+DQogIDwvZz4NCjwvc3ZnPg0K''"

definition renderEmpty :: "string \<Rightarrow> (string \<Rightarrow> string) \<Rightarrow> empty_props" where
  "renderEmpty componentName getPrefixCls =
     (let prefix = getPrefixCls ''empty'' in
      if componentName = ''Table'' \<or> componentName = ''List''
      then \<lparr>image = Some emptyImg, className = Some (prefix @ ''-normal'')\<rparr>
      else if componentName = ''Select'' \<or> componentName = ''TreeSelect''
            \<or> componentName = ''Cascader'' \<or> componentName = ''Transfer''
      then \<lparr>image = Some emptyImg, className = Some (prefix @ ''-small'')\<rparr>
      else \<lparr>image = None, className = None\<rparr>)"

section \<open>The ellipsis fitter of the specification\<close>

text \<open>
  Modelled from the spec: the function \<^verbatim>\<open>measure\<close> of \<^verbatim>\<open>typography/util\<close>, which does the
  fitting, is missing from the sources. This is the state of the surface it measures on:
  attached to a live layout, zero-size, detached, or not yet attached.
\<close>

datatype layout_status = Live | ZeroSize | Detached | NotAttached

text \<open>
  Modelled from the spec: the measurable surface handed to the missing \<^verbatim>\<open>measure\<close>. It
  reports the height of one line at the current font metrics and the rendered height of a
  text fragment followed by decoration nodes. Heights are counted in a fixed unit, and
  \<open>epsilon\<close> is the tolerance for rounding.
\<close>

record 'd surface =
  layoutStatus :: layout_status
  lineHeight :: nat
  epsilon :: nat
  renderedHeight :: "string \<Rightarrow> 'd list \<Rightarrow> nat"

text \<open>
  Modelled from the spec: the fitting request of the missing \<^verbatim>\<open>measure\<close> (full text,
  maximum number of lines, trailing decorations, ellipsis marker).
\<close>

record 'd fitting_request =
  fullText :: string
  maxLines :: nat
  decorations :: "'d list"
  ellipsisMarker :: string

text \<open>
  Modelled from the spec: the fitting result of the missing \<^verbatim>\<open>measure\<close> (fitting text,
  whether it was truncated, and the content that is safe to display).
\<close>

record fitting_result =
  fittingText :: string
  isTruncated :: bool
  renderedContent :: string

text \<open>
  Modelled from the spec: the precondition of the missing \<^verbatim>\<open>measure\<close>, a surface attached
  to a live layout; zero-size and detached surfaces cannot be measured.
\<close>

definition measurable :: "'d surface \<Rightarrow> bool" where
  "measurable surface = (layoutStatus surface = Live)"

text \<open>
  Modelled from the spec: step 1 of the missing \<^verbatim>\<open>measure\<close>, the height of \<open>maxLines\<close> lines
  (single-line height times \<open>maxLines\<close>).
\<close>

definition maxHeight :: "'d surface \<Rightarrow> 'd fitting_request \<Rightarrow> nat" where
  "maxHeight surface request = lineHeight surface * maxLines request"

text \<open>
  Modelled from the spec: the measurement of a candidate in step 3 of the missing
  \<^verbatim>\<open>measure\<close>: render the prefix of length \<open>mid\<close>, the ellipsis marker and the decorations,
  and read the height.
\<close>

definition fragmentHeight :: "'d surface \<Rightarrow> 'd fitting_request \<Rightarrow> nat \<Rightarrow> nat" where
  "fragmentHeight surface request mid =
     renderedHeight surface (take mid (fullText request) @ ellipsisMarker request)
       (decorations request)"

text \<open>
  Modelled from the spec: the test of step 3 of the missing \<^verbatim>\<open>measure\<close>: the candidate fits
  when its height is at most \<open>maxHeight\<close>.
\<close>

definition fragmentFits :: "'d surface \<Rightarrow> 'd fitting_request \<Rightarrow> nat \<Rightarrow> bool" where
  "fragmentFits surface request mid =
     (fragmentHeight surface request mid \<le> maxHeight surface request)"

text \<open>
  Modelled from the spec: the binary search of step 3 of the missing \<^verbatim>\<open>measure\<close> over the
  prefix lengths between \<open>lo\<close> and \<open>hi\<close>. A candidate that fits moves the lower bound up
  to it, one that does not fit moves the upper bound below it; the search ends when the
  bounds meet.
\<close>

function binarySearch :: "(nat \<Rightarrow> bool) \<Rightarrow> nat \<Rightarrow> nat \<Rightarrow> nat" where
  "binarySearch fits lo hi =
     (if lo < hi then
        (let mid = (lo + hi + 1) div 2 in
         if fits mid then binarySearch fits mid hi
         else binarySearch fits lo (mid - 1))
      else lo)"
  by pat_completeness auto
termination
  by (relation "measure (\<lambda>(fits, lo, hi). hi - lo)") auto

declare binarySearch.simps [simp del]

text \<open>
  Modelled from the spec: the result of the missing \<^verbatim>\<open>measure\<close> when nothing is cut, the
  full text with \<open>isTruncated = False\<close>.
\<close>

definition notTruncated :: "'d fitting_request \<Rightarrow> fitting_result" where
  "notTruncated request =
     \<lparr>fittingText = fullText request, isTruncated = False,
      renderedContent = fullText request\<rparr>"

text \<open>
  Modelled from the spec: \<open>fit\<close>, the contract of the missing \<^verbatim>\<open>measure\<close>. A surface that
  cannot be measured gives the full text, not truncated. Otherwise the full text with the
  decorations is measured; within \<open>maxHeight\<close> plus the tolerance it is returned as it is.
  Otherwise the binary search over the lengths \<open>0\<close> to \<open>length fullText\<close> picks \<open>mid\<close>,
  and the result is the prefix of that length, truncated, with the prefix and the marker
  as rendered content.
\<close>

definition fit :: "'d surface \<Rightarrow> 'd fitting_request \<Rightarrow> fitting_result" where
  "fit surface request =
     (if \<not> measurable surface then notTruncated request
      else if renderedHeight surface (fullText request) (decorations request)
                \<le> maxHeight surface request + epsilon surface
      then notTruncated request
      else
        (let mid = binarySearch (fragmentFits surface request) 0 (length (fullText request))
         in \<lparr>fittingText = take mid (fullText request), isTruncated = True,
             renderedContent = take mid (fullText request) @ ellipsisMarker request\<rparr>))"

text \<open>
  Modelled from the spec: an instance of the missing \<^verbatim>\<open>measure\<close>, the fitter \<open>fit\<close> in the
  place where \<open>syncEllipsis\<close> calls it. The content element is the surface, the children
  are flattened to their text, the operations are the decorations. The content handed back
  is the fitting text, since \<^verbatim>\<open>renderContent\<close> appends the ellipsis string itself.
\<close>

definition measureBySpec :: "operation surface measure_fn" where
  "measureBySpec surface r content fixedContent ellipsisStr =
     (let result = fit surface
            \<lparr>fullText = String_node content, maxLines = nat r,
             decorations = fixedContent, ellipsisMarker = ellipsisStr\<rparr>
      in \<lparr>measuredContent = Text (fittingText result),
          measuredText = fittingText result,
          measuredEllipsis = isTruncated result\<rparr>)"


section \<open>Example inputs\<close>

text \<open>
  A surface with lines of ten character cells, ten units high; a decoration takes four
  cells.
\<close>

definition columnSurface :: "operation surface" where
  "columnSurface =
     \<lparr>layoutStatus = Live, lineHeight = 10, epsilon = 0,
      renderedHeight = (\<lambda>txt nodes. 10 * ((length txt + 4 * length nodes + 9) div 10))\<rparr>"

definition foxRequest :: "operation fitting_request" where
  "foxRequest =
     \<lparr>fullText = ''The quick brown fox jumps over the lazy dog'', maxLines = 1,
      decorations = [], ellipsisMarker = ''...''\<rparr>"

definition emptyRequest :: "operation fitting_request" where
  "emptyRequest =
     \<lparr>fullText = [], maxLines = 1, decorations = [], ellipsisMarker = ''...''\<rparr>"

text \<open>Three decorations take twelve cells: alone they need two lines.\<close>

definition crowdedRequest :: "operation fitting_request" where
  "crowdedRequest =
     \<lparr>fullText = ''The quick brown fox'', maxLines = 1,
      decorations = [ExtendLink ''ant-typography'', EditButton ''ant-typography'',
        CopyButton ''ant-typography'' False],
      ellipsisMarker = ''...''\<rparr>"

text \<open>A surface on which only a fragment of six characters is one line high.\<close>

definition unevenSurface :: "operation surface" where
  "unevenSurface =
     \<lparr>layoutStatus = Live, lineHeight = 10, epsilon = 0,
      renderedHeight = (\<lambda>txt nodes. if length txt = 6 then 10 else 30)\<rparr>"

definition abcdRequest :: "operation fitting_request" where
  "abcdRequest =
     \<lparr>fullText = ''abcd'', maxLines = 1, decorations = [], ellipsisMarker = ''...''\<rparr>"

definition foxProps :: base_props where
  "foxProps =
     \<lparr>prefixCls = ''ant-typography'',
      children = Text ''The quick brown fox jumps over the lazy dog'',
      editable = None, extendable = None, copyable = None, rows = Some 1,
      code = None, mark = None, underline = None, delete = None, strong = None\<rparr>"

definition truncatedState :: base_state where
  "truncatedState =
     \<lparr>edit = False, copied = False, ellipsisText = ''The qui'',
      ellipsisContent = Text ''The qui'', isEllipsis = True, extended = False\<rparr>"



section \<open>Properties of the decoration wrapper\<close>

text \<open>
  The tags \<open>wrapperDecorations\<close> applies, innermost first, paired with their flags.
\<close>

definition decoration_pipeline :: "base_props \<Rightarrow> (bool option \<times> string) list" where
  "decoration_pipeline props =
     [(strong props, ''strong''), (underline props, ''u''), (delete props, ''del''),
      (code props, ''code''), (mark props, ''mark'')]"

definition enabled_tags :: "base_props \<Rightarrow> string list" where
  "enabled_tags props =
     map snd (filter (\<lambda>(needed, tag). needed = Some True) (decoration_pipeline props))"

lemma wrap_not_needed:
  "needed \<in> {None, Some False} \<Longrightarrow> wrap needed tag currentContent = currentContent"
  by (auto simp add: wrap_def)

text \<open>
  C8. \<open>wrapperDecorations\<close> applies the wrappers in the fixed order strong, underline (u),
  delete (del), code, mark, each one around the result of the one before: the result is the
  content wrapped successively in the tags of the enabled flags, taken in that order, so
  for every subset of enabled flags the nesting is the fixed order restricted to the subset
  (strong innermost, mark outermost).
\<close>

theorem wrapperDecorations_fixed_order:
  "wrapperDecorations props content =
     foldl (\<lambda>inner tag. Element tag [] [inner]) content (enabled_tags props)
   \<and> subseq (enabled_tags props) [''strong'', ''u'', ''del'', ''code'', ''mark'']"
  by (simp add: wrapperDecorations_def wrap_def enabled_tags_def decoration_pipeline_def)

theorem wrapperDecorations_fixed_order_witness:
  "wrapperDecorations (foxProps\<lparr>code := Some True, underline := Some False,
       delete := Some True, strong := Some True\<rparr>) (Text ''x'')
   = Element ''code'' [] [Element ''del'' [] [Element ''strong'' [] [Text ''x'']]]"
  using wrapperDecorations_fixed_order
    [of "foxProps\<lparr>code := Some True, underline := Some False,
       delete := Some True, strong := Some True\<rparr>" "Text ''x''"]
  by (simp add: enabled_tags_def decoration_pipeline_def foxProps_def)

text \<open>
  C9. When each of the five decoration flags is \<^verbatim>\<open>false\<close> or absent, \<open>wrapperDecorations\<close>
  returns its content argument unchanged.
\<close>

theorem wrapperDecorations_identity:
  assumes "strong props \<in> {None, Some False}"
    and "underline props \<in> {None, Some False}"
    and "delete props \<in> {None, Some False}"
    and "code props \<in> {None, Some False}"
    and "mark props \<in> {None, Some False}"
  shows "wrapperDecorations props content = content"
  by (simp add: wrapperDecorations_def wrap_not_needed [OF assms(1)]
      wrap_not_needed [OF assms(2)] wrap_not_needed [OF assms(3)]
      wrap_not_needed [OF assms(4)] wrap_not_needed [OF assms(5)])

theorem wrapperDecorations_identity_witness:
  "wrapperDecorations (foxProps\<lparr>mark := Some False, delete := Some False\<rparr>)
     (Element ''span'' [] [Text ''plain''])
   = Element ''span'' [] [Text ''plain'']"
  using wrapperDecorations_identity
    [of "foxProps\<lparr>mark := Some False, delete := Some False\<rparr>"
      "Element ''span'' [] [Text ''plain'']"]
  by (simp add: foxProps_def)

section \<open>Properties of the default empty placeholder\<close>

text \<open>
  C10. \<open>renderEmpty\<close> is a function of the component name (and the prefix function of the
  context): for \<^verbatim>\<open>Table\<close> and \<^verbatim>\<open>List\<close> it gives an \<^verbatim>\<open>Empty\<close> element with the simple
  image and the class \<^verbatim>\<open>prefix-normal\<close>, for \<^verbatim>\<open>Select\<close>, \<^verbatim>\<open>TreeSelect\<close>, \<^verbatim>\<open>Cascader\<close> and
  \<^verbatim>\<open>Transfer\<close> one with the class \<^verbatim>\<open>prefix-small\<close>, and for every other name a plain
  \<^verbatim>\<open>Empty\<close> element without image or class.
\<close>

theorem renderEmpty_classification:
  "(componentName \<in> {''Table'', ''List''} \<longrightarrow>
      renderEmpty componentName getPrefixCls =
        \<lparr>image = Some emptyImg, className = Some (getPrefixCls ''empty'' @ ''-normal'')\<rparr>)
   \<and> (componentName \<in> {''Select'', ''TreeSelect'', ''Cascader'', ''Transfer''} \<longrightarrow>
      renderEmpty componentName getPrefixCls =
        \<lparr>image = Some emptyImg, className = Some (getPrefixCls ''empty'' @ ''-small'')\<rparr>)
   \<and> (componentName \<notin> {''Table'', ''List'', ''Select'', ''TreeSelect'', ''Cascader'', ''Transfer''} \<longrightarrow>
      renderEmpty componentName getPrefixCls = \<lparr>image = None, className = None\<rparr>)"
  by (auto simp add: renderEmpty_def)

theorem renderEmpty_classification_witness:
  "renderEmpty ''Table'' (\<lambda>suffix. ''ant-'' @ suffix) =
     \<lparr>image = Some emptyImg, className = Some ''ant-empty-normal''\<rparr>
   \<and> renderEmpty ''Cascader'' (\<lambda>suffix. ''ant-'' @ suffix) =
     \<lparr>image = Some emptyImg, className = Some ''ant-empty-small''\<rparr>
   \<and> renderEmpty ''Tree'' (\<lambda>suffix. ''ant-'' @ suffix) = \<lparr>image = None, className = None\<rparr>"
  using renderEmpty_classification [of "''Table''" "\<lambda>suffix. ''ant-'' @ suffix"]
    renderEmpty_classification [of "''Cascader''" "\<lambda>suffix. ''ant-'' @ suffix"]
    renderEmpty_classification [of "''Tree''" "\<lambda>suffix. ''ant-'' @ suffix"]
  by simp

section \<open>Properties of the binary search\<close>

lemma binarySearch_stop: "\<not> lo < hi \<Longrightarrow> binarySearch fits lo hi = lo"
  by (subst binarySearch.simps) simp

lemma binarySearch_up:
  "lo < hi \<Longrightarrow> fits ((lo + hi + 1) div 2) \<Longrightarrow>
     binarySearch fits lo hi = binarySearch fits ((lo + hi + 1) div 2) hi"
  by (subst binarySearch.simps) (simp add: Let_def)

lemma binarySearch_down:
  "lo < hi \<Longrightarrow> \<not> fits ((lo + hi + 1) div 2) \<Longrightarrow>
     binarySearch fits lo hi = binarySearch fits lo ((lo + hi + 1) div 2 - 1)"
  by (subst binarySearch.simps) (simp add: Let_def)

lemma mid_between: "lo < hi \<Longrightarrow> lo < (lo + hi + 1) div 2 \<and> (lo + hi + 1) div 2 \<le> (hi::nat)"
  by linarith

lemma binarySearch_bounds:
  "lo \<le> hi \<Longrightarrow> lo \<le> binarySearch fits lo hi \<and> binarySearch fits lo hi \<le> hi"
proof (induction fits lo hi rule: binarySearch.induct)
  case (1 fits lo hi)
  show ?case
  proof (cases "lo < hi")
    case False
    with "1.prems" show ?thesis by (simp add: binarySearch_stop)
  next
    case True
    define mid where "mid = (lo + hi + 1) div 2"
    have m: "lo < mid" "mid \<le> hi" using mid_between [OF True] by (simp_all add: mid_def)
    show ?thesis
    proof (cases "fits mid")
      case True
      have "mid \<le> binarySearch fits mid hi \<and> binarySearch fits mid hi \<le> hi"
        using "1.IH"(1) [OF \<open>lo < hi\<close> mid_def True] m by simp
      moreover have "binarySearch fits lo hi = binarySearch fits mid hi"
        using binarySearch_up [OF \<open>lo < hi\<close>] True by (simp add: mid_def)
      ultimately show ?thesis using m by linarith
    next
      case False
      have "lo \<le> binarySearch fits lo (mid - 1) \<and> binarySearch fits lo (mid - 1) \<le> mid - 1"
        using "1.IH"(2) [OF \<open>lo < hi\<close> mid_def False] m by simp
      moreover have "binarySearch fits lo hi = binarySearch fits lo (mid - 1)"
        using binarySearch_down [OF \<open>lo < hi\<close>] False by (simp add: mid_def)
      ultimately show ?thesis using m by linarith
    qed
  qed
qed

text \<open>The result is the lower bound it started from, or a length that was measured to fit.\<close>

lemma binarySearch_fits:
  "binarySearch fits lo hi = lo \<or> fits (binarySearch fits lo hi)"
proof (induction fits lo hi rule: binarySearch.induct)
  case (1 fits lo hi)
  show ?case
  proof (cases "lo < hi")
    case False
    then show ?thesis by (simp add: binarySearch_stop)
  next
    case True
    define mid where "mid = (lo + hi + 1) div 2"
    show ?thesis
    proof (cases "fits mid")
      case True
      have "binarySearch fits mid hi = mid \<or> fits (binarySearch fits mid hi)"
        using "1.IH"(1) [OF \<open>lo < hi\<close> mid_def True] .
      moreover have "binarySearch fits lo hi = binarySearch fits mid hi"
        using binarySearch_up [OF \<open>lo < hi\<close>] True by (simp add: mid_def)
      ultimately show ?thesis using True by auto
    next
      case False
      have "binarySearch fits lo (mid - 1) = lo \<or> fits (binarySearch fits lo (mid - 1))"
        using "1.IH"(2) [OF \<open>lo < hi\<close> mid_def False] .
      moreover have "binarySearch fits lo hi = binarySearch fits lo (mid - 1)"
        using binarySearch_down [OF \<open>lo < hi\<close>] False by (simp add: mid_def)
      ultimately show ?thesis by simp
    qed
  qed
qed

text \<open>When no longer length fits, the search stays at its lower bound.\<close>

lemma binarySearch_none:
  "(\<And>k. lo < k \<Longrightarrow> k \<le> hi \<Longrightarrow> \<not> fits k) \<Longrightarrow> binarySearch fits lo hi = lo"
proof (induction fits lo hi rule: binarySearch.induct)
  case (1 fits lo hi)
  show ?case
  proof (cases "lo < hi")
    case False
    then show ?thesis by (simp add: binarySearch_stop)
  next
    case True
    define mid where "mid = (lo + hi + 1) div 2"
    have m: "lo < mid" "mid \<le> hi" using mid_between [OF True] by (simp_all add: mid_def)
    have nf: "\<not> fits mid" using "1.prems" m by blast
    have "binarySearch fits lo (mid - 1) = lo"
    proof (rule "1.IH"(2) [OF \<open>lo < hi\<close> mid_def nf])
      fix k assume "lo < k" "k \<le> mid - 1"
      then show "\<not> fits k" using "1.prems" [of k] m by simp
    qed
    moreover have "binarySearch fits lo hi = binarySearch fits lo (mid - 1)"
      using binarySearch_down [OF \<open>lo < hi\<close>] nf by (simp add: mid_def)
    ultimately show ?thesis by simp
  qed
qed

text \<open>
  When fitting is downward closed between the bounds (a shorter prefix of a fitting prefix
  fits), no length above the result fits.
\<close>

lemma binarySearch_maximal:
  assumes "lo \<le> hi"
    and "\<And>i j. lo \<le> i \<Longrightarrow> i \<le> j \<Longrightarrow> j \<le> hi \<Longrightarrow> fits j \<Longrightarrow> fits i"
    and "binarySearch fits lo hi < k" and "k \<le> hi"
  shows "\<not> fits k"
  using assms
proof (induction fits lo hi rule: binarySearch.induct)
  case (1 fits lo hi)
  show ?case
  proof (cases "lo < hi")
    case False
    with "1.prems" have "binarySearch fits lo hi = lo" "lo = hi"
      by (simp_all add: binarySearch_stop)
    with "1.prems" show ?thesis by simp
  next
    case True
    define mid where "mid = (lo + hi + 1) div 2"
    have m: "lo < mid" "mid \<le> hi" using mid_between [OF True] by (simp_all add: mid_def)
    show ?thesis
    proof (cases "fits mid")
      case True
      have eq: "binarySearch fits lo hi = binarySearch fits mid hi"
        using binarySearch_up [OF \<open>lo < hi\<close>] True by (simp add: mid_def)
      show ?thesis
      proof (rule "1.IH"(1) [OF \<open>lo < hi\<close> mid_def True])
        show "mid \<le> hi" by (rule m)
        show "binarySearch fits mid hi < k" using "1.prems"(3) eq by simp
        show "k \<le> hi" by (rule "1.prems")
        fix i j assume "mid \<le> i" "i \<le> j" "j \<le> hi" "fits j"
        then show "fits i" using "1.prems"(2) [of i j] m by simp
      qed
    next
      case False
      have eq: "binarySearch fits lo hi = binarySearch fits lo (mid - 1)"
        using binarySearch_down [OF \<open>lo < hi\<close>] False by (simp add: mid_def)
      show ?thesis
      proof (cases "k < mid")
        case True
        show ?thesis
        proof (rule "1.IH"(2) [OF \<open>lo < hi\<close> mid_def False])
          show "lo \<le> mid - 1" using m by simp
          show "binarySearch fits lo (mid - 1) < k" using "1.prems"(3) eq by simp
          show "k \<le> mid - 1" using True by simp
          fix i j assume "lo \<le> i" "i \<le> j" "j \<le> mid - 1" "fits j"
          then show "fits i" using "1.prems"(2) [of i j] m by simp
        qed
      next
        case nlt: False
        show ?thesis
        proof
          assume "fits k"
          then have "fits mid" using "1.prems"(2) [of mid k] m nlt "1.prems"(4) by simp
          with False show False by simp
        qed
      qed
    qed
  qed
qed

text \<open>A more generous test never gives a shorter result.\<close>

lemma binarySearch_mono:
  assumes "lo \<le> hi" and "\<And>k. P k \<Longrightarrow> Q k"
  shows "binarySearch P lo hi \<le> binarySearch Q lo hi"
  using assms
proof (induction P lo hi rule: binarySearch.induct)
  case (1 P lo hi)
  show ?case
  proof (cases "lo < hi")
    case False
    then show ?thesis by (simp add: binarySearch_stop)
  next
    case True
    define mid where "mid = (lo + hi + 1) div 2"
    have m: "lo < mid" "mid \<le> hi" using mid_between [OF True] by (simp_all add: mid_def)
    show ?thesis
    proof (cases "P mid")
      case True
      then have q: "Q mid" by (rule "1.prems")
      have "binarySearch P mid hi \<le> binarySearch Q mid hi"
        using "1.IH"(1) [OF \<open>lo < hi\<close> mid_def True] m "1.prems"(2) by simp
      moreover have "binarySearch P lo hi = binarySearch P mid hi"
        using binarySearch_up [OF \<open>lo < hi\<close>] True by (simp add: mid_def)
      moreover have "binarySearch Q lo hi = binarySearch Q mid hi"
        using binarySearch_up [OF \<open>lo < hi\<close>] q by (simp add: mid_def)
      ultimately show ?thesis by simp
    next
      case False
      have ih: "binarySearch P lo (mid - 1) \<le> binarySearch Q lo (mid - 1)"
        using "1.IH"(2) [OF \<open>lo < hi\<close> mid_def False] m "1.prems"(2) by simp
      have eqP: "binarySearch P lo hi = binarySearch P lo (mid - 1)"
        using binarySearch_down [OF \<open>lo < hi\<close>] False by (simp add: mid_def)
      show ?thesis
      proof (cases "Q mid")
        case True
        have "binarySearch Q lo hi = binarySearch Q mid hi"
          using binarySearch_up [OF \<open>lo < hi\<close>] True by (simp add: mid_def)
        moreover have "mid \<le> binarySearch Q mid hi"
          using binarySearch_bounds [of mid hi Q] m by simp
        moreover have "binarySearch P lo (mid - 1) \<le> mid - 1"
          using binarySearch_bounds [of lo "mid - 1" P] m by simp
        ultimately show ?thesis using eqP m by linarith
      next
        case False
        have "binarySearch Q lo hi = binarySearch Q lo (mid - 1)"
          using binarySearch_down [OF \<open>lo < hi\<close>] False by (simp add: mid_def)
        with ih eqP show ?thesis by simp
      qed
    qed
  qed
qed

section \<open>Properties of the fitter of the specification\<close>

lemma fit_truncated_eq:
  assumes "measurable surface"
    and "\<not> renderedHeight surface (fullText request) (decorations request)
            \<le> maxHeight surface request + epsilon surface"
  shows "fit surface request =
     \<lparr>fittingText =
        take (binarySearch (fragmentFits surface request) 0 (length (fullText request)))
          (fullText request),
      isTruncated = True,
      renderedContent =
        take (binarySearch (fragmentFits surface request) 0 (length (fullText request)))
          (fullText request) @ ellipsisMarker request\<rparr>"
  using assms by (simp add: fit_def Let_def)

lemma fit_full_eq:
  assumes "\<not> measurable surface \<or>
     renderedHeight surface (fullText request) (decorations request)
       \<le> maxHeight surface request + epsilon surface"
  shows "fit surface request = notTruncated request"
  using assms by (auto simp add: fit_def)

lemma search_le_length:
  "binarySearch fits 0 (length txt) \<le> length txt"
  using binarySearch_bounds [of 0 "length txt" fits] by simp


lemma columnSurface_measurable: "measurable columnSurface"
  by (simp add: measurable_def columnSurface_def)

lemma columnSurface_monotone:
  "i \<le> j \<Longrightarrow> fragmentHeight columnSurface request i \<le> fragmentHeight columnSurface request j"
  by (simp add: fragmentHeight_def columnSurface_def div_le_mono min.coboundedI2)

lemma fox_evaluated:
  "fit columnSurface foxRequest =
     \<lparr>fittingText = ''The qui'', isTruncated = True, renderedContent = ''The qui...''\<rparr>"
  by (simp add: fit_def columnSurface_def foxRequest_def measurable_def maxHeight_def
      fragmentFits_def fragmentHeight_def binarySearch.simps Let_def)

text \<open>
  C1, as amended. On a measurable surface, when the full text with the decorations does not
  fit the budget, \<open>fit\<close> returns a truncated result whose fitting text is a prefix of the
  full text. When no prefix of nonzero length fits with the marker and the decorations,
  the fitting text is empty. On a surface whose fragment height never decreases when the
  prefix grows, the length returned is the maximal one that fits: every length that fits is
  at most the length returned, and, if some length fits at all, the length returned fits.
\<close>

theorem fit_maximal_prefix:
  assumes "measurable surface"
    and "\<not> renderedHeight surface (fullText request) (decorations request)
            \<le> maxHeight surface request + epsilon surface"
  shows "isTruncated (fit surface request)
    \<and> fittingText (fit surface request) =
        take (length (fittingText (fit surface request))) (fullText request)
    \<and> ((\<forall>k. 1 \<le> k \<and> k \<le> length (fullText request) \<longrightarrow>
            \<not> fragmentFits surface request k) \<longrightarrow>
          fittingText (fit surface request) = [])
    \<and> ((\<forall>i j. i \<le> j \<and> j \<le> length (fullText request) \<longrightarrow>
            fragmentHeight surface request i \<le> fragmentHeight surface request j) \<longrightarrow>
         (\<forall>k. k \<le> length (fullText request) \<and> fragmentFits surface request k \<longrightarrow>
            k \<le> length (fittingText (fit surface request))
            \<and> fragmentFits surface request (length (fittingText (fit surface request)))))"
proof -
  define n where "n = length (fullText request)"
  define mid where "mid = binarySearch (fragmentFits surface request) 0 n"
  have eq: "fit surface request =
      \<lparr>fittingText = take mid (fullText request), isTruncated = True,
       renderedContent = take mid (fullText request) @ ellipsisMarker request\<rparr>"
    using fit_truncated_eq [OF assms] by (simp add: mid_def n_def)
  have le: "mid \<le> n" using search_le_length [of "fragmentFits surface request" "fullText request"]
    by (simp add: mid_def n_def)
  have len: "length (fittingText (fit surface request)) = mid"
    using le by (simp add: eq n_def)
  have a: "isTruncated (fit surface request)" by (simp add: eq)
  have b: "fittingText (fit surface request) =
      take (length (fittingText (fit surface request))) (fullText request)"
    by (simp add: len) (simp add: eq)
  have c: "fittingText (fit surface request) = []"
    if none: "\<forall>k. 1 \<le> k \<and> k \<le> n \<longrightarrow> \<not> fragmentFits surface request k"
  proof -
    have "binarySearch (fragmentFits surface request) 0 n = 0"
      by (rule binarySearch_none) (use none in auto)
    then show ?thesis by (simp add: eq mid_def)
  qed
  have d: "k \<le> mid \<and> fragmentFits surface request mid"
    if mono: "\<forall>i j. i \<le> j \<and> j \<le> n \<longrightarrow>
        fragmentHeight surface request i \<le> fragmentHeight surface request j"
      and k: "k \<le> n" "fragmentFits surface request k" for k
  proof -
    have down: "fragmentFits surface request i"
      if "i \<le> j" "j \<le> n" "fragmentFits surface request j" for i j
      using mono that by (fastforce simp add: fragmentFits_def)
    have "k \<le> mid"
    proof (rule ccontr)
      assume "\<not> k \<le> mid"
      then have "mid < k" by simp
      then have "\<not> fragmentFits surface request k"
        unfolding mid_def
        by (rule binarySearch_maximal [where lo = 0 and hi = n, rotated 2])
          (use k down in auto)
      with k show False by simp
    qed
    moreover have "fragmentFits surface request mid"
    proof (cases "mid = 0")
      case True
      then show ?thesis using down [of 0 k] k by simp
    next
      case False
      then show ?thesis
        using binarySearch_fits [of "fragmentFits surface request" 0 n] by (simp add: mid_def)
    qed
    ultimately show ?thesis ..
  qed
  show ?thesis
    using a b c d unfolding len n_def [symmetric] by blast
qed

theorem fit_maximal_prefix_witness:
  "measurable columnSurface
   \<and> \<not> renderedHeight columnSurface (fullText foxRequest) (decorations foxRequest)
        \<le> maxHeight columnSurface foxRequest + epsilon columnSurface
   \<and> isTruncated (fit columnSurface foxRequest)
   \<and> fragmentFits columnSurface foxRequest 7
   \<and> 7 \<le> length (fittingText (fit columnSurface foxRequest))
   \<and> fragmentFits columnSurface foxRequest (length (fittingText (fit columnSurface foxRequest)))
   \<and> \<not> fragmentFits columnSurface foxRequest 8
   \<and> fittingText (fit columnSurface foxRequest) = ''The qui''"
proof -
  have over: "\<not> renderedHeight columnSurface (fullText foxRequest) (decorations foxRequest)
        \<le> maxHeight columnSurface foxRequest + epsilon columnSurface"
    by (simp add: columnSurface_def foxRequest_def maxHeight_def)
  have seven: "fragmentFits columnSurface foxRequest 7"
    and eight: "\<not> fragmentFits columnSurface foxRequest 8"
    by (simp_all add: fragmentFits_def fragmentHeight_def columnSurface_def foxRequest_def
        maxHeight_def)
  have len: "7 \<le> length (fullText foxRequest)" by (simp add: foxRequest_def)
  note max = fit_maximal_prefix [OF columnSurface_measurable over]
  have mono: "\<forall>i j. i \<le> j \<and> j \<le> length (fullText foxRequest) \<longrightarrow>
      fragmentHeight columnSurface foxRequest i \<le> fragmentHeight columnSurface foxRequest j"
    by (simp add: columnSurface_monotone)
  from max mono len seven
  have "7 \<le> length (fittingText (fit columnSurface foxRequest))
      \<and> fragmentFits columnSurface foxRequest (length (fittingText (fit columnSurface foxRequest)))"
    by blast
  moreover from max have "isTruncated (fit columnSurface foxRequest)" by blast
  moreover have "fittingText (fit columnSurface foxRequest) = ''The qui''"
    by (simp add: fox_evaluated)
  ultimately show ?thesis
    using columnSurface_measurable over seven eight by blast
qed

text \<open>
  On the uneven surface the prefix of length three fits, but the search tries the lengths
  two and one, finds that neither fits, and returns the empty prefix, which does not fit
  either.
\<close>

theorem fit_maximal_prefix_counterexample:
  "measurable unevenSurface
   \<and> \<not> renderedHeight unevenSurface (fullText abcdRequest) (decorations abcdRequest)
        \<le> maxHeight unevenSurface abcdRequest + epsilon unevenSurface
   \<and> fragmentFits unevenSurface abcdRequest 3
   \<and> \<not> fragmentFits unevenSurface abcdRequest 0
   \<and> fittingText (fit unevenSurface abcdRequest) = []"
  by (simp add: fit_def unevenSurface_def abcdRequest_def measurable_def maxHeight_def
      fragmentFits_def fragmentHeight_def binarySearch.simps Let_def)

text \<open>
  C3, as amended. On a measurable surface the rendered content of the result, measured
  with the decorations, is at most \<open>maxHeight\<close> plus the tolerance whenever the result
  is not truncated, or its fitting text is not empty, or the marker alone fits with the
  decorations. (The empty truncated result that is returned when nothing fits is left out.)
\<close>

theorem fit_within_budget:
  assumes "measurable surface"
    and "\<not> isTruncated (fit surface request) \<or> fittingText (fit surface request) \<noteq> []
         \<or> fragmentFits surface request 0"
  shows "renderedHeight surface (renderedContent (fit surface request)) (decorations request)
           \<le> maxHeight surface request + epsilon surface"
proof (cases "renderedHeight surface (fullText request) (decorations request)
                \<le> maxHeight surface request + epsilon surface")
  case True
  then show ?thesis by (simp add: fit_full_eq notTruncated_def)
next
  case False
  define mid where "mid = binarySearch (fragmentFits surface request) 0 (length (fullText request))"
  have eq: "fit surface request =
      \<lparr>fittingText = take mid (fullText request), isTruncated = True,
       renderedContent = take mid (fullText request) @ ellipsisMarker request\<rparr>"
    using fit_truncated_eq [OF assms(1) False] by (simp add: mid_def)
  have "fragmentFits surface request mid"
  proof (cases "mid = 0")
    case True
    with assms(2) show ?thesis by (simp add: eq)
  next
    case False
    then show ?thesis
      using binarySearch_fits [of "fragmentFits surface request" 0 "length (fullText request)"]
      by (simp add: mid_def)
  qed
  then show ?thesis by (simp add: eq fragmentFits_def fragmentHeight_def)
qed

theorem fit_within_budget_witness:
  "measurable columnSurface
   \<and> fittingText (fit columnSurface foxRequest) \<noteq> []
   \<and> renderedContent (fit columnSurface foxRequest) = ''The qui...''
   \<and> renderedHeight columnSurface ''The qui...'' (decorations foxRequest)
        \<le> maxHeight columnSurface foxRequest + epsilon columnSurface"
proof -
  have ne: "fittingText (fit columnSurface foxRequest) \<noteq> []"
    by (simp add: fox_evaluated)
  have "renderedHeight columnSurface (renderedContent (fit columnSurface foxRequest))
          (decorations foxRequest)
        \<le> maxHeight columnSurface foxRequest + epsilon columnSurface"
    using fit_within_budget [OF columnSurface_measurable, of foxRequest] ne by blast
  then show ?thesis using ne columnSurface_measurable by (simp add: fox_evaluated)
qed

text \<open>
  When the decorations alone need two lines, \<open>fit\<close> returns the empty fitting text,
  truncated, and its rendered content (the marker) with the decorations is two lines high:
  above the budget of one line.
\<close>

theorem fit_within_budget_counterexample:
  "measurable columnSurface
   \<and> isTruncated (fit columnSurface crowdedRequest)
   \<and> fittingText (fit columnSurface crowdedRequest) = []
   \<and> \<not> renderedHeight columnSurface (renderedContent (fit columnSurface crowdedRequest))
          (decorations crowdedRequest)
        \<le> maxHeight columnSurface crowdedRequest + epsilon columnSurface"
  by (simp add: fit_def columnSurface_def crowdedRequest_def measurable_def maxHeight_def
      fragmentFits_def fragmentHeight_def binarySearch.simps Let_def)

text \<open>
  C4. When the full text with the trailing decorations measures at most \<open>maxHeight\<close>
  plus the tolerance, also when the full text is empty, \<open>fit\<close> returns
  \<open>isTruncated = False\<close> and the full text as fitting text.
\<close>

theorem fit_full_text_when_it_fits:
  assumes "renderedHeight surface (fullText request) (decorations request)
             \<le> maxHeight surface request + epsilon surface"
  shows "isTruncated (fit surface request) = False
    \<and> fittingText (fit surface request) = fullText request"
  using assms by (simp add: fit_full_eq notTruncated_def)

theorem fit_full_text_when_it_fits_witness:
  "renderedHeight columnSurface (fullText (foxRequest\<lparr>maxLines := 5\<rparr>))
       (decorations (foxRequest\<lparr>maxLines := 5\<rparr>))
     \<le> maxHeight columnSurface (foxRequest\<lparr>maxLines := 5\<rparr>) + epsilon columnSurface
   \<and> isTruncated (fit columnSurface (foxRequest\<lparr>maxLines := 5\<rparr>)) = False
   \<and> fittingText (fit columnSurface (foxRequest\<lparr>maxLines := 5\<rparr>))
       = ''The quick brown fox jumps over the lazy dog''
   \<and> renderedHeight columnSurface (fullText emptyRequest) (decorations emptyRequest)
     \<le> maxHeight columnSurface emptyRequest + epsilon columnSurface
   \<and> isTruncated (fit columnSurface emptyRequest) = False
   \<and> fittingText (fit columnSurface emptyRequest) = []"
proof -
  have a: "renderedHeight columnSurface (fullText (foxRequest\<lparr>maxLines := 5\<rparr>))
       (decorations (foxRequest\<lparr>maxLines := 5\<rparr>))
     \<le> maxHeight columnSurface (foxRequest\<lparr>maxLines := 5\<rparr>) + epsilon columnSurface"
    by (simp add: columnSurface_def foxRequest_def maxHeight_def)
  have b: "renderedHeight columnSurface (fullText emptyRequest) (decorations emptyRequest)
     \<le> maxHeight columnSurface emptyRequest + epsilon columnSurface"
    by (simp add: columnSurface_def emptyRequest_def maxHeight_def)
  show ?thesis
    using a b fit_full_text_when_it_fits [OF a] fit_full_text_when_it_fits [OF b]
    by (simp add: foxRequest_def emptyRequest_def)
qed

text \<open>
  C6. With the surface and the rest of the request unchanged, a larger \<open>maxLines\<close> never
  gives a shorter fitting text.
\<close>

theorem fit_monotone_in_maxLines:
  assumes "maxLines request \<le> lines"
  shows "length (fittingText (fit surface request))
           \<le> length (fittingText (fit surface (request\<lparr>maxLines := lines\<rparr>)))"
proof -
  let ?wider = "request\<lparr>maxLines := lines\<rparr>"
  let ?n = "length (fullText request)"
  have mh: "maxHeight surface request \<le> maxHeight surface ?wider"
    using assms by (simp add: maxHeight_def)
  have short: "length (fittingText (fit surface request)) \<le> ?n"
    by (simp add: fit_def notTruncated_def Let_def)
  show ?thesis
  proof (cases "\<not> measurable surface \<or>
      renderedHeight surface (fullText ?wider) (decorations ?wider)
        \<le> maxHeight surface ?wider + epsilon surface")
    case True
    then have "fit surface ?wider = notTruncated ?wider" by (rule fit_full_eq)
    then show ?thesis using short by (simp add: notTruncated_def)
  next
    case False
    then have m: "measurable surface"
      and w: "\<not> renderedHeight surface (fullText ?wider) (decorations ?wider)
              \<le> maxHeight surface ?wider + epsilon surface" by simp_all
    have r: "\<not> renderedHeight surface (fullText request) (decorations request)
              \<le> maxHeight surface request + epsilon surface"
      using w mh by simp
    have imp: "fragmentFits surface ?wider k" if "fragmentFits surface request k" for k
      using that mh by (simp add: fragmentFits_def fragmentHeight_def)
    have "binarySearch (fragmentFits surface request) 0 ?n
            \<le> binarySearch (fragmentFits surface ?wider) 0 ?n"
      by (rule binarySearch_mono) (simp_all add: imp)
    moreover have "binarySearch (fragmentFits surface ?wider) 0 ?n \<le> ?n"
      by (rule search_le_length)
    ultimately show ?thesis
      using fit_truncated_eq [OF m r] fit_truncated_eq [OF m w] by simp
  qed
qed

theorem fit_monotone_in_maxLines_witness:
  "maxLines foxRequest \<le> 2
   \<and> length (fittingText (fit columnSurface foxRequest))
        \<le> length (fittingText (fit columnSurface (foxRequest\<lparr>maxLines := 2\<rparr>)))
   \<and> fittingText (fit columnSurface foxRequest) = ''The qui''
   \<and> fittingText (fit columnSurface (foxRequest\<lparr>maxLines := 2\<rparr>)) = ''The quick brown f''"
proof -
  have le: "maxLines foxRequest \<le> 2" by (simp add: foxRequest_def)
  have two: "fittingText (fit columnSurface (foxRequest\<lparr>maxLines := 2\<rparr>)) = ''The quick brown f''"
    by (simp add: fit_def columnSurface_def foxRequest_def measurable_def maxHeight_def
        fragmentFits_def fragmentHeight_def binarySearch.simps Let_def)
  show ?thesis
    using le fit_monotone_in_maxLines [OF le, of columnSurface] two
    by (simp add: fox_evaluated)
qed

section \<open>Properties of the Base component\<close>

text \<open>Storing a measurement does not change the operations that are rendered.\<close>

lemma renderExtend_ellipsis_update:
  "renderExtend props (st\<lparr>ellipsisText := t, ellipsisContent := c, isEllipsis := e\<rparr>)
   = renderExtend props st"
  by (simp add: renderExtend_def)

lemma renderCopy_ellipsis_update:
  "renderCopy props (st\<lparr>ellipsisText := t, ellipsisContent := c, isEllipsis := e\<rparr>)
   = renderCopy props st"
  by (simp add: renderCopy_def)

lemma renderOperations_ellipsis_update:
  "renderOperations props
     (st\<lparr>ellipsisText := t, ellipsisContent := c, isEllipsis := e\<rparr>)
   = renderOperations props st"
  unfolding renderOperations_def
  by (simp only: renderExtend_ellipsis_update renderCopy_ellipsis_update)

lemma measureBySpec_fox:
  "measureBySpec columnSurface 1 (children foxProps) [] ELLIPSIS_STR =
     \<lparr>measuredContent = Text ''The qui'', measuredText = ''The qui'',
      measuredEllipsis = True\<rparr>"
  using fox_evaluated
  by (simp add: measureBySpec_def foxProps_def foxRequest_def ELLIPSIS_STR_def Let_def)

lemma renderOperations_fox: "renderOperations foxProps st = []"
  by (simp add: renderOperations_def renderExtend_def renderEdit_def renderCopy_def
      foxProps_def truthy_def List.map_filter_simps)

lemma syncEllipsis_fox:
  "syncEllipsis measureBySpec foxProps (Some columnSurface) initialState = truncatedState"
proof -
  have "rows foxProps = Some 1" by (simp add: foxProps_def)
  then show ?thesis
    by (simp add: syncEllipsis_def renderOperations_fox measureBySpec_fox Let_def)
      (simp add: initialState_def truncatedState_def)
qed












text \<open>
  C5. Running \<open>syncEllipsis\<close> a second time with the same \<^verbatim>\<open>measure\<close>, props and content
  element leaves the state exactly as the first run left it: the same ellipsis text, the
  same ellipsis flag and the same ellipsis content. The first run does not change the
  operations that the second run hands to \<^verbatim>\<open>measure\<close>.
\<close>

theorem syncEllipsis_idempotent:
  "syncEllipsis measure_util props content (syncEllipsis measure_util props content st)
     = syncEllipsis measure_util props content st
   \<and> renderOperations props (syncEllipsis measure_util props content st)
     = renderOperations props st"
  by (simp add: syncEllipsis_def Let_def renderOperations_ellipsis_update
      split: option.split)

theorem syncEllipsis_idempotent_witness:
  "syncEllipsis measureBySpec foxProps (Some columnSurface) initialState = truncatedState
   \<and> syncEllipsis measureBySpec foxProps (Some columnSurface) truncatedState = truncatedState"
  using syncEllipsis_idempotent [of measureBySpec foxProps "Some columnSurface" initialState]
  by (simp add: syncEllipsis_fox)









end
